theory Spec2Isabelle
  imports Complex_Main "HOL-Library.Multiset"
begin

section \<open>Conventions\<close>

text \<open>
  The development embeds the planning and control core of the parking simulation:
  \<^verbatim>\<open>utils.py\<close>, \<^verbatim>\<open>vehicle.py\<close>, \<^verbatim>\<open>pathfinding.py\<close>, \<^verbatim>\<open>parking.py\<close> and the selector and
  tick of \<^verbatim>\<open>main.py\<close>.  Python floats are read as real numbers: \<^verbatim>\<open>math.sqrt\<close>,
  \<^verbatim>\<open>math.cos\<close>, \<^verbatim>\<open>math.sin\<close> are the real functions, and \<^verbatim>\<open>%\<close> on floats is the floored
  remainder.  Rounding of IEEE doubles is not modelled.  Drawing code and colours are
  left out.
\<close>

datatype py_error = ZeroDivisionError | KeyError | TypeError

section \<open>Geometry utilities (utils.py)\<close>

type_synonym point = "real \<times> real"

definition radians :: "real \<Rightarrow> real" where
  "radians d = d * pi / 180"

definition degrees :: "real \<Rightarrow> real" where
  "degrees r = r * 180 / pi"

text \<open>\<^verbatim>\<open>math.atan2(y, x)\<close>, the angle of the point \<open>(x, y)\<close> in \<open>(-pi, pi]\<close>, with
  \<^verbatim>\<open>atan2(0, 0) = 0\<close>.\<close>

definition atan2 :: "real \<Rightarrow> real \<Rightarrow> real" where
  "atan2 y x =
     (if 0 < x then arctan (y / x)
      else if x < 0 then (if 0 \<le> y then arctan (y / x) + pi else arctan (y / x) - pi)
      else if 0 < y then pi / 2
      else if y < 0 then - pi / 2
      else 0)"

text \<open>Python's \<^verbatim>\<open>a % b\<close> on numbers: the remainder of the floored quotient.\<close>

definition py_mod :: "real \<Rightarrow> real \<Rightarrow> real" where
  "py_mod a b = a - b * of_int \<lfloor>a / b\<rfloor>"

text \<open>Python's \<^verbatim>\<open>int(r)\<close> on a float: truncation towards zero.\<close>

definition py_int :: "real \<Rightarrow> int" where
  "py_int r = (if 0 \<le> r then \<lfloor>r\<rfloor> else \<lceil>r\<rceil>)"

definition rotate_point :: "real \<Rightarrow> real \<Rightarrow> real \<Rightarrow> real \<Rightarrow> real \<Rightarrow> point" where
  "rotate_point px py center_x center_y angle_deg =
     (let angle_rad = radians angle_deg;
          translated_x = px - center_x;
          translated_y = py - center_y;
          rotated_x = translated_x * cos angle_rad - translated_y * sin angle_rad;
          rotated_y = translated_x * sin angle_rad + translated_y * cos angle_rad
      in (rotated_x + center_x, rotated_y + center_y))"

definition distance :: "point \<Rightarrow> point \<Rightarrow> real" where
  "distance point1 point2 =
     sqrt ((fst point2 - fst point1)\<^sup>2 + (snd point2 - snd point1)\<^sup>2)"

section \<open>Rectangles (pygame.Rect)\<close>

text \<open>
  A \<^verbatim>\<open>pygame.Rect\<close> holds four integers; \<^verbatim>\<open>right\<close>, \<^verbatim>\<open>bottom\<close>, \<^verbatim>\<open>centerx\<close> and
  \<^verbatim>\<open>centery\<close> are derived attributes.  Two rectangles are equal when the four
  integers are.
\<close>

record rect =
  rect_left :: int
  rect_top :: int
  rect_width :: int
  rect_height :: int

definition Rect :: "int \<Rightarrow> int \<Rightarrow> int \<Rightarrow> int \<Rightarrow> rect" where
  "Rect l t w h = \<lparr>rect_left = l, rect_top = t, rect_width = w, rect_height = h\<rparr>"

definition rect_right :: "rect \<Rightarrow> int" where
  "rect_right r = rect_left r + rect_width r"

definition rect_bottom :: "rect \<Rightarrow> int" where
  "rect_bottom r = rect_top r + rect_height r"

definition centerx :: "rect \<Rightarrow> int" where
  "centerx r = rect_left r + rect_width r div 2"

definition centery :: "rect \<Rightarrow> int" where
  "centery r = rect_top r + rect_height r div 2"

section \<open>The vehicle (vehicle.py)\<close>

datatype motion = Idle | Moving | Rotating | Parking | Returning

record vehicle =
  veh_x :: real
  veh_y :: real
  start_x :: real
  start_y :: real
  angle :: real
  start_angle :: real
  velocity :: real
  max_velocity :: real
  acceleration :: real
  deceleration :: real
  turning_speed :: real
  veh_width :: real
  veh_length :: real
  target_x :: "real option"
  target_y :: "real option"
  target_angle :: "real option"
  path :: "point list"
  current_path_index :: nat
  state :: motion
  parking_phase :: nat

definition Vehicle_init :: "real \<Rightarrow> real \<Rightarrow> real \<Rightarrow> vehicle" where
  "Vehicle_init px py a =
     \<lparr>veh_x = px, veh_y = py, start_x = px, start_y = py, angle = a, start_angle = a,
      velocity = 0, max_velocity = 4, acceleration = 1 / 10, deceleration = 2 / 10,
      turning_speed = 2, veh_width = 40, veh_length = 80,
      target_x = None, target_y = None, target_angle = None,
      path = [], current_path_index = 0, state = Idle, parking_phase = 0\<rparr>"


definition set_path :: "vehicle \<Rightarrow> point list \<Rightarrow> vehicle" where
  "set_path v p = v\<lparr>path := p, current_path_index := 0\<rparr>"


definition get_corners :: "vehicle \<Rightarrow> point list" where
  "get_corners v =
     (let half_length = veh_length v / 2;
          half_width = veh_width v / 2;
          corners = [(- half_length, - half_width), (half_length, - half_width),
                     (half_length, half_width), (- half_length, half_width)]
      in map (\<lambda>(corner_x, corner_y).
                case rotate_point corner_x corner_y 0 0 (angle v) of
                  (rx, ry) \<Rightarrow> (veh_x v + rx, veh_y v + ry)) corners)"

subsection \<open>Collision test\<close>

definition ccw :: "point \<Rightarrow> point \<Rightarrow> point \<Rightarrow> bool" where
  "ccw a b c \<longleftrightarrow> (snd c - snd a) * (fst b - fst a) > (snd b - snd a) * (fst c - fst a)"

definition do_lines_intersect :: "point \<Rightarrow> point \<Rightarrow> point \<Rightarrow> point \<Rightarrow> bool" where
  "do_lines_intersect p1 p2 p3 p4 \<longleftrightarrow>
     ccw p1 p3 p4 \<noteq> ccw p2 p3 p4 \<and> ccw p1 p2 p3 \<noteq> ccw p1 p2 p4"

text \<open>
  One round of the ray-casting loop.  The loop state is \<open>(inside, (p1x, p1y))\<close>.  The
  source assigns \<^verbatim>\<open>xinters\<close> only when \<^verbatim>\<open>p1y != p2y\<close>; inside the guard
  \<^verbatim>\<open>y > min(p1y, p2y) and y <= max(p1y, p2y)\<close> the two differ, so the value read is always
  the one computed in the same round.
\<close>

definition pip_round :: "point \<Rightarrow> point list \<Rightarrow> nat \<Rightarrow> bool \<times> point \<Rightarrow> bool \<times> point" where
  "pip_round pt polygon i st =
     (case (pt, st, polygon ! (i mod length polygon)) of
        ((px, py), (inside, (p1x, p1y)), (p2x, p2y)) \<Rightarrow>
          (if py > min p1y p2y \<and> py \<le> max p1y p2y \<and> px \<le> max p1x p2x
           then (let xinters = (py - p1y) * (p2x - p1x) / (p2y - p1y) + p1x
                 in if p1x = p2x \<or> px \<le> xinters then \<not> inside else inside)
           else inside,
           (p2x, p2y)))"

text \<open>The polygon is never empty here: both callers pass four corners.\<close>

definition is_point_in_polygon :: "point \<Rightarrow> point list \<Rightarrow> bool" where
  "is_point_in_polygon pt polygon =
     fst (fold (pip_round pt polygon) [0..<length polygon + 1] (False, polygon ! 0))"

text \<open>
  The collision test on two corner lists of four points each: some edge of the first
  crosses some edge of the second, or the first corner of one lies in the other.
\<close>

definition corners_collide :: "point list \<Rightarrow> point list \<Rightarrow> bool" where
  "corners_collide vehicle_corners obstacle_corners \<longleftrightarrow>
     list_ex (\<lambda>i. list_ex (\<lambda>j.
         do_lines_intersect (vehicle_corners ! i) (vehicle_corners ! ((i + 1) mod 4))
                            (obstacle_corners ! j) (obstacle_corners ! ((j + 1) mod 4)))
       [0..<4]) [0..<4]
     \<or> is_point_in_polygon (vehicle_corners ! 0) obstacle_corners
     \<or> is_point_in_polygon (obstacle_corners ! 0) vehicle_corners"

definition rect_corners :: "rect \<Rightarrow> point list" where
  "rect_corners r =
     [(of_int (rect_left r), of_int (rect_top r)),
      (of_int (rect_right r), of_int (rect_top r)),
      (of_int (rect_right r), of_int (rect_bottom r)),
      (of_int (rect_left r), of_int (rect_bottom r))]"

definition check_rectangle_collision :: "point list \<Rightarrow> rect \<Rightarrow> bool" where
  "check_rectangle_collision vehicle_corners obstacle_rect =
     corners_collide vehicle_corners (rect_corners obstacle_rect)"

text \<open>
  \<^verbatim>\<open>is_colliding\<close> also builds a local rectangle object that it never reads; it has no
  part in the result and is left out.
\<close>

definition is_colliding :: "vehicle \<Rightarrow> rect list \<Rightarrow> bool" where
  "is_colliding v obstacles =
     list_ex (\<lambda>obstacle. check_rectangle_collision (get_corners v) obstacle) obstacles"

subsection \<open>The per-tick update\<close>

text \<open>
  Every state repeats the same lines for the heading error and for the turn; they are
  written once here.  \<open>heading_error\<close> wraps the error into \<open>(-180, 180]\<close>; \<open>turn\<close> adds
  or subtracts at most the turning speed and normalises with \<^verbatim>\<open>% 360\<close>.
\<close>

definition heading_error :: "real \<Rightarrow> real \<Rightarrow> real" where
  "heading_error desired_angle a =
     (let angle_diff = py_mod (desired_angle - a) 360
      in if angle_diff > 180 then angle_diff - 360 else angle_diff)"

definition turn :: "vehicle \<Rightarrow> real \<Rightarrow> real" where
  "turn v angle_diff =
     py_mod (if angle_diff > 0 then angle v + min (turning_speed v) angle_diff
             else angle v - min (turning_speed v) (- angle_diff)) 360"

definition advance :: "vehicle \<Rightarrow> vehicle" where
  "advance v =
     v\<lparr>veh_x := veh_x v + velocity v * cos (radians (angle v)),
       veh_y := veh_y v + velocity v * sin (radians (angle v))\<rparr>"

definition update_moving :: "vehicle \<Rightarrow> vehicle" where
  "update_moving v =
     (case (target_x v, target_y v) of
        (Some tx, Some ty) \<Rightarrow>
          (let dx = tx - veh_x v;
               dy = ty - veh_y v;
               target_distance = sqrt (dx * dx + dy * dy);
               desired_angle = degrees (atan2 dy dx);
               angle_diff = heading_error desired_angle (angle v);
               v1 = (if \<bar>angle_diff\<bar> > 2
                     then v\<lparr>angle := turn v angle_diff,
                            velocity := max 0 (velocity v - 5 / 100)\<rparr>
                     else v\<lparr>velocity := min (max_velocity v) (velocity v + acceleration v)\<rparr>);
               v2 = advance v1
           in if target_distance < 5
              then (if target_angle v2 \<noteq> None
                    then v2\<lparr>velocity := 0, state := Rotating\<rparr>
                    else v2\<lparr>velocity := 0, state := Idle, target_x := None, target_y := None\<rparr>)
              else v2)
      | _ \<Rightarrow> v\<lparr>state := Idle\<rparr>)"

definition update_rotating :: "vehicle \<Rightarrow> vehicle" where
  "update_rotating v =
     (case target_angle v of
        None \<Rightarrow> v\<lparr>state := Idle\<rparr>
      | Some ta \<Rightarrow>
          (let angle_diff = heading_error ta (angle v)
           in if \<bar>angle_diff\<bar> > 1
              then v\<lparr>angle := turn v angle_diff\<rparr>
              else v\<lparr>angle := ta, state := Idle, target_angle := None\<rparr>))"

definition update_parking :: "vehicle \<Rightarrow> rect list \<Rightarrow> vehicle" where
  "update_parking v obstacles =
     (if is_colliding v obstacles then v\<lparr>state := Returning\<rparr>
      else if path v \<noteq> [] \<and> current_path_index v < length (path v)
      then (let target = path v ! current_path_index v;
                dx = fst target - veh_x v;
                dy = snd target - veh_y v;
                target_distance = sqrt (dx * dx + dy * dy);
                desired_angle = degrees (atan2 dy dx);
                angle_diff = heading_error desired_angle (angle v);
                v1 = (if \<bar>angle_diff\<bar> > 2
                      then v\<lparr>angle := turn v angle_diff,
                             velocity := max 0 (velocity v - 5 / 100)\<rparr>
                      else v\<lparr>velocity := min (max_velocity v / 2)
                                                (velocity v + acceleration v / 2)\<rparr>);
                v2 = advance v1
            in if target_distance < 5
               then (let v3 = v2\<lparr>current_path_index := current_path_index v2 + 1\<rparr>
                     in if current_path_index v3 \<ge> length (path v3)
                        then v3\<lparr>state := Idle, velocity := 0\<rparr>
                        else v3)
               else v2)
      else v\<lparr>state := Idle, velocity := 0\<rparr>)"

definition update_returning :: "vehicle \<Rightarrow> vehicle" where
  "update_returning v =
     (let dx = start_x v - veh_x v;
          dy = start_y v - veh_y v;
          distance_to_start = sqrt (dx * dx + dy * dy)
      in if distance_to_start < 10
         then (let v1 = v\<lparr>veh_x := start_x v, veh_y := start_y v\<rparr>;
                   angle_diff = heading_error (start_angle v1) (angle v1)
               in if \<bar>angle_diff\<bar> < 2
                  then v1\<lparr>angle := start_angle v1, velocity := 0, state := Idle\<rparr>
                  else v1\<lparr>angle := turn v1 angle_diff\<rparr>)
         else (let desired_angle = degrees (atan2 dy dx);
                   angle_diff = heading_error desired_angle (angle v);
                   v1 = (if \<bar>angle_diff\<bar> > 2
                         then v\<lparr>angle := turn v angle_diff,
                                velocity := max 0 (velocity v - 5 / 100)\<rparr>
                         else v\<lparr>velocity := min (max_velocity v)
                                                   (velocity v + acceleration v)\<rparr>)
               in advance v1))"

definition update :: "vehicle \<Rightarrow> rect list \<Rightarrow> vehicle" where
  "update v obstacles =
     (case state v of
        Idle \<Rightarrow> v
      | Moving \<Rightarrow> update_moving v
      | Rotating \<Rightarrow> update_rotating v
      | Parking \<Rightarrow> update_parking v obstacles
      | Returning \<Rightarrow> update_returning v)"

subsection \<open>Predicates and sample vehicles used in the properties\<close>





section \<open>The phase-based simulation (main.py)\<close>

text \<open>
  \<^verbatim>\<open>main.py\<close> holds a second, self-contained simulation: a car steered by two ad hoc
  phases, a selector over the vacant spots, and the list of failed spots.  A spot and a
  parked car are both dictionaries with a rectangle and a type; Python compares them by
  value.
\<close>

datatype ParkingType = PARALLEL | PERPENDICULAR

datatype CarState = SEARCHING | PARKING | PARKED | FAILED

datatype side = RightSide | LeftSide

record spot =
  spot_rect :: rect
  spot_type :: ParkingType

definition WINDOW_WIDTH :: int where "WINDOW_WIDTH = 1200"
definition WINDOW_HEIGHT :: int where "WINDOW_HEIGHT = 800"
definition CAR_LENGTH :: int where "CAR_LENGTH = 40"
definition CAR_WIDTH :: int where "CAR_WIDTH = 20"

text \<open>The attribute \<^verbatim>\<open>last_route\<close> is never written after construction and is left
  out.\<close>

record car =
  car_x :: real
  car_y :: real
  car_angle :: real
  speed :: real
  steering_angle :: real
  car_state :: CarState
  attempt_count :: nat
  path_points :: "point list"
  target_spot :: "spot option"
  failed_spots :: "spot list"
  approach_side :: side

definition AutonomousCar_init :: "real \<Rightarrow> real \<Rightarrow> car" where
  "AutonomousCar_init px py =
     \<lparr>car_x = px, car_y = py, car_angle = 0, speed = 0, steering_angle = 0,
      car_state = SEARCHING, attempt_count = 0, path_points = [], target_spot = None,
      failed_spots = [], approach_side = RightSide\<rparr>"

definition reset_position :: "car \<Rightarrow> car" where
  "reset_position c =
     c\<lparr>car_x := 100, car_y := of_int (WINDOW_HEIGHT div 2), car_angle := 0,
       path_points := [],
       approach_side := (if approach_side c = RightSide then LeftSide else RightSide)\<rparr>"

definition move :: "car \<Rightarrow> car" where
  "move c =
     (if car_state c = SEARCHING \<or> car_state c = PARKING
      then (let nx = car_x c + cos (radians (car_angle c)) * speed c;
                ny = car_y c - sin (radians (car_angle c)) * speed c
            in c\<lparr>car_x := nx, car_y := ny, car_angle := car_angle c + steering_angle c,
                 path_points := path_points c @ [(nx, ny)]\<rparr>)
      else c)"

text \<open>The simulation object.  \<^verbatim>\<open>parking_phase\<close> is an attribute created on first use
  (\<^verbatim>\<open>hasattr\<close>): \<open>None\<close> while it does not exist.\<close>

record simulation =
  the_car :: car
  parking_spots :: "spot list"
  parked_cars :: "spot list"
  sim_parking_phase :: "nat option"
  paused :: bool

subsection \<open>The selector\<close>

definition spot_distance :: "car \<Rightarrow> spot \<Rightarrow> real" where
  "spot_distance c s =
     sqrt ((car_x c - of_int (centerx (spot_rect s)))\<^sup>2
           + (car_y c - of_int (centery (spot_rect s)))\<^sup>2)"

text \<open>The loop that collects the available spots with their distances.\<close>

fun collect_available :: "car \<Rightarrow> spot list \<Rightarrow> spot list \<Rightarrow> (spot \<times> real) list
    \<Rightarrow> (spot \<times> real) list" where
  "collect_available c parked [] available_spots = available_spots"
| "collect_available c parked (s # rest) available_spots =
     (if list_ex (\<lambda>pc. spot_rect pc = spot_rect s) parked \<or> s \<in> set (failed_spots c)
      then collect_available c parked rest available_spots
      else collect_available c parked rest (available_spots @ [(s, spot_distance c s)]))"

text \<open>\<^verbatim>\<open>list.sort(key=...)\<close> is a stable ascending sort, as \<open>sort_key\<close> is.\<close>

definition find_nearest_parking_spot :: "simulation \<Rightarrow> spot option" where
  "find_nearest_parking_spot sim =
     (let available_spots =
            collect_available (the_car sim) (parked_cars sim) (parking_spots sim) []
      in if available_spots = [] then None
         else (let sorted_spots = sort_key snd available_spots;
                   spot_index = min (attempt_count (the_car sim)) (length sorted_spots - 1)
               in Some (fst (sorted_spots ! spot_index))))"

text \<open>The selector as the specification words it: filter, sort by distance, pick the
  entry at \<open>min attemptIndex (count - 1)\<close>.\<close>

definition eligible_spots :: "car \<Rightarrow> spot list \<Rightarrow> spot list \<Rightarrow> spot list" where
  "eligible_spots c spots occupied =
     filter (\<lambda>s. \<not> (\<exists>pc \<in> set occupied. spot_rect pc = spot_rect s) \<and> s \<notin> set (failed_spots c))
       spots"

definition select_target_spec :: "car \<Rightarrow> spot list \<Rightarrow> spot list \<Rightarrow> spot option" where
  "select_target_spec c spots occupied =
     (let ranked = sort_key (spot_distance c) (eligible_spots c spots occupied)
      in if ranked = [] then None
         else Some (ranked ! min (attempt_count c) (length ranked - 1)))"

subsection \<open>One tick of the run loop\<close>

text \<open>\<^verbatim>\<open>pygame.Rect\<close> truncates float arguments towards zero, as \<^verbatim>\<open>int\<close> does.\<close>

text \<open>\<^verbatim>\<open>Rect.colliderect\<close>: rectangles of zero width or height collide with nothing;
  otherwise the two must overlap in both axes.\<close>

definition colliderect :: "rect \<Rightarrow> rect \<Rightarrow> bool" where
  "colliderect a b \<longleftrightarrow>
     \<not> (rect_width a = 0 \<or> rect_height a = 0 \<or> rect_width b = 0 \<or> rect_height b = 0)
     \<and> min (rect_left a) (rect_right a) < max (rect_left b) (rect_right b)
     \<and> min (rect_top a) (rect_bottom a) < max (rect_top b) (rect_bottom b)
     \<and> max (rect_left a) (rect_right a) > min (rect_left b) (rect_right b)
     \<and> max (rect_top a) (rect_bottom a) > min (rect_top b) (rect_bottom b)"

definition check_collision :: "simulation \<Rightarrow> bool" where
  "check_collision sim =
     (let c = the_car sim;
          car_rect = Rect (py_int (car_x c - of_int CAR_WIDTH / 2))
                          (py_int (car_y c - of_int CAR_LENGTH / 2)) CAR_WIDTH CAR_LENGTH
      in list_ex (\<lambda>parked_car. colliderect car_rect (spot_rect parked_car)) (parked_cars sim)
         \<or> car_x c < 0 \<or> car_x c > of_int WINDOW_WIDTH
         \<or> car_y c < 0 \<or> car_y c > of_int WINDOW_HEIGHT)"

text \<open>\<^verbatim>\<open>generate_approach_path\<close> returns \<open>(approach_x, approach_y, final_angle)\<close>.\<close>

definition generate_approach_path :: "simulation \<Rightarrow> spot \<Rightarrow> int \<times> int \<times> int" where
  "generate_approach_path sim ts =
     (if spot_type ts = PARALLEL
      then (if approach_side (the_car sim) = RightSide
            then (rect_left (spot_rect ts) - 100, rect_top (spot_rect ts) - 50, 0)
            else (rect_left (spot_rect ts) - 100, rect_top (spot_rect ts) + 50, 0))
      else (let offset = (if attempt_count (the_car sim) mod 2 = 0 then 150 else 200)
            in (rect_left (spot_rect ts) - offset, rect_top (spot_rect ts), 90)))"

text \<open>
  \<^verbatim>\<open>parallel_parking_movement\<close>.  It reads \<^verbatim>\<open>self.car.target_spot['rect']\<close> first, which
  raises \<^verbatim>\<open>TypeError\<close> when no target is set.
\<close>

definition steer_to :: "car \<Rightarrow> real \<Rightarrow> real \<Rightarrow> real \<Rightarrow> real \<Rightarrow> real \<Rightarrow> car" where
  "steer_to c dx dy sp gain cap =
     (let angle_to_target = degrees (atan2 (- dy) dx);
          angle_diff = py_mod (angle_to_target - car_angle c) 360
      in c\<lparr>speed := sp, steering_angle := min (max (angle_diff * gain) (- cap)) cap\<rparr>)"

definition parallel_parking_movement :: "simulation \<Rightarrow> py_error + simulation" where
  "parallel_parking_movement sim =
     (case target_spot (the_car sim) of
        None \<Rightarrow> Inl TypeError
      | Some ts \<Rightarrow>
          (let target = spot_rect ts;
               approach_path = generate_approach_path sim ts;
               sim1 = (if sim_parking_phase sim = None then sim\<lparr>sim_parking_phase := Some 1\<rparr>
                       else sim);
               c = the_car sim1
           in if sim_parking_phase sim1 = Some 1
              then (let dx = of_int (fst approach_path) - car_x c;
                        dy = of_int (fst (snd approach_path)) - car_y c
                    in if \<bar>dx\<bar> > 5 \<or> \<bar>dy\<bar> > 5
                       then Inr (sim1\<lparr>the_car := steer_to c dx dy 2 (1 / 10) 3\<rparr>)
                       else Inr (sim1\<lparr>sim_parking_phase := Some 2\<rparr>))
              else if sim_parking_phase sim1 = Some 2
              then (let dx = of_int (centerx target) - car_x c;
                        dy = of_int (centery target) - car_y c
                    in if \<bar>dx\<bar> > 5 \<or> \<bar>dy\<bar> > 5
                       then Inr (sim1\<lparr>the_car := steer_to c dx dy 1 (15 / 100) 5\<rparr>)
                       else Inr (sim1\<lparr>the_car := c\<lparr>car_state := PARKED, speed := 0,
                                                    steering_angle := 0\<rparr>,
                                       sim_parking_phase := Some 1\<rparr>))
              else Inr sim1))"

text \<open>\<^verbatim>\<open>perpendicular_parking_movement\<close> repeats the body of the parallel movement line
  by line (same speeds, gains and caps).\<close>

definition perpendicular_parking_movement :: "simulation \<Rightarrow> py_error + simulation" where
  "perpendicular_parking_movement sim = parallel_parking_movement sim"

text \<open>The first part of a tick: the branch on the car's state.\<close>

definition tick_decide :: "simulation \<Rightarrow> py_error + simulation" where
  "tick_decide sim =
     (let c = the_car sim
      in if car_state c = SEARCHING
         then (case find_nearest_parking_spot sim of
                 Some ts \<Rightarrow>
                   Inr (sim\<lparr>the_car := c\<lparr>target_spot := Some ts, car_state := PARKING\<rparr>\<rparr>)
               | None \<Rightarrow>
                   if attempt_count c \<ge> 3
                   then Inr (sim\<lparr>the_car := c\<lparr>car_state := FAILED\<rparr>\<rparr>)
                   else (let c1 = c\<lparr>attempt_count := attempt_count c + 1\<rparr>;
                             c2 = (case target_spot c1 of
                                     Some ts \<Rightarrow> c1\<lparr>failed_spots := failed_spots c1 @ [ts]\<rparr>
                                   | None \<Rightarrow> c1)
                         in Inr (sim\<lparr>the_car := reset_position c2\<rparr>)))
         else if car_state c = PARKING
         then (case target_spot c of
                 None \<Rightarrow> Inl TypeError
               | Some ts \<Rightarrow>
                   if spot_type ts = PARALLEL then parallel_parking_movement sim
                   else perpendicular_parking_movement sim)
         else Inr sim)"

text \<open>The second part: move, then handle a collision.\<close>

definition tick_collide :: "simulation \<Rightarrow> simulation" where
  "tick_collide sim0 =
     (let sim = sim0\<lparr>the_car := move (the_car sim0)\<rparr>
      in if check_collision sim
         then (let c = the_car sim;
                   c1 = (case target_spot c of
                           Some ts \<Rightarrow> c\<lparr>failed_spots := failed_spots c @ [ts]\<rparr>
                         | None \<Rightarrow> c);
                   c2 = c1\<lparr>car_state := SEARCHING, attempt_count := attempt_count c1 + 1\<rparr>;
                   sim1 = sim\<lparr>the_car := reset_position c2\<rparr>
               in if sim_parking_phase sim1 \<noteq> None then sim1\<lparr>sim_parking_phase := Some 1\<rparr>
                  else sim1)
         else sim)"

text \<open>One pass of the body of \<^verbatim>\<open>run\<close> with no button event.\<close>

definition tick :: "simulation \<Rightarrow> py_error + simulation" where
  "tick sim =
     (if paused sim then Inr sim
      else (case tick_decide sim of
              Inl e \<Rightarrow> Inl e
            | Inr sim1 \<Rightarrow> Inr (tick_collide sim1)))"

text \<open>The spot that a tick selects as its new target, if it selects one.\<close>

definition selection :: "simulation \<Rightarrow> spot option" where
  "selection sim =
     (if \<not> paused sim \<and> car_state (the_car sim) = SEARCHING
      then find_nearest_parking_spot sim else None)"

text \<open>The targets selected during the first \<open>n\<close> ticks, in order.\<close>

fun targets :: "nat \<Rightarrow> simulation \<Rightarrow> spot list" where
  "targets 0 sim = []"
| "targets (Suc n) sim =
     (case selection sim of None \<Rightarrow> [] | Some ts \<Rightarrow> [ts])
     @ (case tick sim of Inl e \<Rightarrow> [] | Inr sim1 \<Rightarrow> targets n sim1)"

text \<open>A simulation as \<^verbatim>\<open>__init__\<close> leaves it once the start button is pressed: a fresh car
  at \<open>(100, 400)\<close>, no phase attribute, not paused.\<close>

definition started :: "spot list \<Rightarrow> spot list \<Rightarrow> simulation" where
  "started spots parked =
     \<lparr>the_car = AutonomousCar_init 100 (of_int (WINDOW_HEIGHT div 2)),
      parking_spots = spots, parked_cars = parked, sim_parking_phase = None, paused = False\<rparr>"

section \<open>The grid path finder (pathfinding.py)\<close>

type_synonym cell = "int \<times> int"

record pathfinder =
  pf_width :: int
  pf_height :: int
  grid_size :: int
  grid_width :: int
  grid_height :: int

text \<open>The constructor divides by the grid size (\<^verbatim>\<open>//\<close>, the floored quotient).\<close>

definition PathFinder_init :: "int \<Rightarrow> int \<Rightarrow> int \<Rightarrow> py_error + pathfinder" where
  "PathFinder_init w h gs =
     (if gs = 0 then Inl ZeroDivisionError
      else Inr \<lparr>pf_width = w, pf_height = h, grid_size = gs,
                grid_width = w div gs, grid_height = h div gs\<rparr>)"

definition is_valid_position :: "pathfinder \<Rightarrow> cell \<Rightarrow> bool" where
  "is_valid_position pf pos \<longleftrightarrow>
     0 \<le> fst pos \<and> fst pos < grid_width pf \<and> 0 \<le> snd pos \<and> snd pos < grid_height pf"

subsection \<open>The obstacle grid\<close>

text \<open>
  The grid is a list of \<open>grid_height\<close> rows of \<open>grid_width\<close> booleans; \<^verbatim>\<open>grid[y][x]\<close> is
  \<open>grid ! y ! x\<close>.  \<^verbatim>\<open>range(a, b)\<close> is \<open>[a..b - 1]\<close>.  All indices written lie inside
  the grid, because both ranges are clamped to it.
\<close>

definition grid_lookup :: "bool list list \<Rightarrow> cell \<Rightarrow> bool" where
  "grid_lookup grid pos = grid ! nat (snd pos) ! nat (fst pos)"

definition mark_cell :: "int \<Rightarrow> int \<Rightarrow> bool list list \<Rightarrow> bool list list" where
  "mark_cell cy cx grid = grid[nat cy := (grid ! nat cy)[nat cx := True]]"

definition mark_obstacle :: "pathfinder \<Rightarrow> rect \<Rightarrow> bool list list \<Rightarrow> bool list list" where
  "mark_obstacle pf obstacle grid =
     (let left = max 0 (rect_left obstacle div grid_size pf);
          right = min (grid_width pf - 1) (rect_right obstacle div grid_size pf);
          top = max 0 (rect_top obstacle div grid_size pf);
          bottom = min (grid_height pf - 1) (rect_bottom obstacle div grid_size pf);
          margin = 1
      in fold (\<lambda>cy. fold (\<lambda>cx. mark_cell cy cx)
                 [max 0 (left - margin) .. min (grid_width pf) (right + margin + 1) - 1])
           [max 0 (top - margin) .. min (grid_height pf) (bottom + margin + 1) - 1] grid)"

definition create_obstacle_grid :: "pathfinder \<Rightarrow> rect list \<Rightarrow> bool list list" where
  "create_obstacle_grid pf obstacles =
     fold (mark_obstacle pf) obstacles
       (replicate (nat (grid_height pf)) (replicate (nat (grid_width pf)) False))"

subsection \<open>Scores\<close>

text \<open>
  The scores of the search are sums of the float literals \<^verbatim>\<open>1\<close>, \<^verbatim>\<open>1.414\<close> and
  \<^verbatim>\<open>0.414\<close> times integers.  They are kept exactly, counted in thousandths: an
  orthogonal step costs 1000, a diagonal step 1414.
\<close>

definition heuristic :: "cell \<Rightarrow> cell \<Rightarrow> nat" where
  "heuristic a b =
     (let dx = \<bar>fst a - fst b\<bar>; dy = \<bar>snd a - snd b\<bar>
      in nat (1000 * max dx dy + 414 * min dx dy))"

definition step_cost :: "int \<times> int \<Rightarrow> nat" where
  "step_cost d = (if fst d \<noteq> 0 \<and> snd d \<noteq> 0 then 1414 else 1000)"

definition directions :: "(int \<times> int) list" where
  "directions = [(0, 1), (1, 0), (0, - 1), (- 1, 0), (1, 1), (- 1, 1), (1, - 1), (- 1, - 1)]"

subsection \<open>The open set\<close>

text \<open>
  The heap holds pairs \<open>(priority, position)\<close>.  \<^verbatim>\<open>heapq.heappop\<close> returns the least
  entry in Python's tuple order: by priority, then by the position's \<open>x\<close>, then by its
  \<open>y\<close>.  Which entry is popped depends only on the entries in the heap, so the heap is
  modelled by the list of its entries; a push adds an entry, a pop removes the least one.
\<close>

type_synonym entry = "nat \<times> cell"

definition entry_less :: "entry \<Rightarrow> entry \<Rightarrow> bool" where
  "entry_less a b \<longleftrightarrow>
     fst a < fst b
     \<or> (fst a = fst b
        \<and> (fst (snd a) < fst (snd b)
           \<or> (fst (snd a) = fst (snd b) \<and> snd (snd a) < snd (snd b))))"

definition least_entry :: "entry \<Rightarrow> entry list \<Rightarrow> entry" where
  "least_entry e es = fold (\<lambda>a m. if entry_less a m then a else m) es e"

definition heappop :: "entry list \<Rightarrow> entry \<times> entry list" where
  "heappop es = (let m = least_entry (hd es) (tl es) in (m, remove1 m es))"

subsection \<open>The search loop\<close>

record search =
  open_set :: "entry list"
  came_from :: "cell \<rightharpoonup> cell"
  g_score :: "cell \<rightharpoonup> nat"
  f_score :: "cell \<rightharpoonup> nat"
  open_set_hash :: "cell set"

datatype search_result = Found "cell \<rightharpoonup> cell" cell | Exhausted | Raised py_error

text \<open>
  The body of the loop over the eight neighbours, for one direction.  \<^verbatim>\<open>g_score[current]\<close>
  raises \<^verbatim>\<open>KeyError\<close> when the current cell has no score.
\<close>

definition visit :: "pathfinder \<Rightarrow> bool list list \<Rightarrow> cell \<Rightarrow> cell \<Rightarrow> int \<times> int \<Rightarrow> search
    \<Rightarrow> py_error + search" where
  "visit pf grid end_grid current d s =
     (let neighbor = (fst current + fst d, snd current + snd d)
      in if \<not> is_valid_position pf neighbor \<or> grid_lookup grid neighbor then Inr s
         else (case g_score s current of
                 None \<Rightarrow> Inl KeyError
               | Some g_current \<Rightarrow>
                   (let tentative_g_score = g_current + step_cost d
                    in if (case g_score s neighbor of None \<Rightarrow> True
                           | Some g_old \<Rightarrow> tentative_g_score < g_old)
                       then (let f_new = tentative_g_score + heuristic neighbor end_grid;
                                 s1 = s\<lparr>came_from := (came_from s)(neighbor \<mapsto> current),
                                        g_score := (g_score s)(neighbor \<mapsto> tentative_g_score),
                                        f_score := (f_score s)(neighbor \<mapsto> f_new)\<rparr>
                             in if neighbor \<notin> open_set_hash s1
                                then Inr (s1\<lparr>open_set := (f_new, neighbor) # open_set s1,
                                              open_set_hash := insert neighbor (open_set_hash s1)\<rparr>)
                                else Inr s1)
                       else Inr s)))"

fun visit_all :: "pathfinder \<Rightarrow> bool list list \<Rightarrow> cell \<Rightarrow> cell \<Rightarrow> (int \<times> int) list \<Rightarrow> search
    \<Rightarrow> py_error + search" where
  "visit_all pf grid end_grid current [] s = Inr s"
| "visit_all pf grid end_grid current (d # ds) s =
     (case visit pf grid end_grid current d s of
        Inl e \<Rightarrow> Inl e
      | Inr s1 \<Rightarrow> visit_all pf grid end_grid current ds s1)"

text \<open>
  The measure of the loop: the number of grid cells without a score, then the sum of the
  scores of the grid cells, then the size of the heap.  A neighbour that is updated
  either gets its first score or a smaller one; a round without an update shrinks the
  heap.
\<close>

definition cells :: "pathfinder \<Rightarrow> cell set" where
  "cells pf = {0..<grid_width pf} \<times> {0..<grid_height pf}"

definition unscored :: "pathfinder \<Rightarrow> search \<Rightarrow> nat" where
  "unscored pf s = card {c \<in> cells pf. g_score s c = None}"

definition score_sum :: "pathfinder \<Rightarrow> search \<Rightarrow> nat" where
  "score_sum pf s = (\<Sum>c \<in> cells pf. case g_score s c of None \<Rightarrow> 0 | Some g \<Rightarrow> g)"

text \<open>One round of the \<^verbatim>\<open>while open_set\<close> loop: the result when the loop ends in this
  round, or the state for the next round.  \<^verbatim>\<open>open_set_hash.remove\<close> raises
  \<^verbatim>\<open>KeyError\<close> when the cell is not in the set.\<close>

definition astar_step :: "pathfinder \<Rightarrow> bool list list \<Rightarrow> cell \<Rightarrow> search
    \<Rightarrow> search_result + search" where
  "astar_step pf grid end_grid s =
     (if open_set s = [] then Inl Exhausted
      else (let popped = heappop (open_set s);
                current = snd (fst popped)
            in if current \<notin> open_set_hash s then Inl (Raised KeyError)
               else (let s1 = s\<lparr>open_set := snd popped,
                                open_set_hash := open_set_hash s - {current}\<rparr>
                     in if current = end_grid then Inl (Found (came_from s1) current)
                        else (case visit_all pf grid end_grid current directions s1 of
                                Inl e \<Rightarrow> Inl (Raised e)
                              | Inr s2 \<Rightarrow> Inr s2))))"

subsection \<open>Termination of the search loop\<close>

lemma finite_cells: "finite (cells pf)"
  by (simp add: cells_def)

lemma valid_in_cells: "is_valid_position pf c \<Longrightarrow> c \<in> cells pf"
  by (cases c) (simp add: is_valid_position_def cells_def)

definition search_measure :: "pathfinder \<Rightarrow> search \<Rightarrow> nat \<times> nat" where
  "search_measure pf s = (unscored pf s, score_sum pf s)"

lemma first_score_decreases:
  assumes "c \<in> cells pf" "g_score s c = None" "g_score s' = (g_score s)(c \<mapsto> g)"
  shows "unscored pf s' < unscored pf s"
proof -
  let ?A = "{a \<in> cells pf. g_score s a = None}"
  have eq: "{a \<in> cells pf. g_score s' a = None} = ?A - {c}"
    using assms by auto
  have mem: "c \<in> ?A"
    using assms by simp
  have fin: "finite ?A"
    using finite_cells by simp
  have "card (?A - {c}) < card ?A"
    using fin mem by (rule card_Diff1_less)
  then show ?thesis
    by (simp only: unscored_def eq)
qed

lemma better_score_decreases:
  assumes "c \<in> cells pf" "g_score s c = Some g_old" "g < g_old"
    "g_score s' = (g_score s)(c \<mapsto> g)"
  shows "unscored pf s' = unscored pf s \<and> score_sum pf s' < score_sum pf s"
proof -
  let ?v = "\<lambda>t a. case g_score t a of None \<Rightarrow> 0 | Some g \<Rightarrow> g"
  have "{a \<in> cells pf. g_score s' a = None} = {a \<in> cells pf. g_score s a = None}"
    using assms by auto
  then have u: "unscored pf s' = unscored pf s"
    by (simp add: unscored_def)
  have rest: "(\<Sum>a \<in> cells pf - {c}. ?v s' a) = (\<Sum>a \<in> cells pf - {c}. ?v s a)"
    by (rule sum.cong) (simp_all add: assms)
  have "score_sum pf s' = ?v s' c + (\<Sum>a \<in> cells pf - {c}. ?v s' a)"
    unfolding score_sum_def using assms(1) finite_cells by (simp add: sum.remove)
  moreover have "score_sum pf s = ?v s c + (\<Sum>a \<in> cells pf - {c}. ?v s a)"
    unfolding score_sum_def using assms(1) finite_cells by (simp add: sum.remove)
  ultimately have "score_sum pf s' < score_sum pf s"
    using rest assms by simp
  with u show ?thesis by simp
qed

lemma visit_measure:
  assumes "visit pf grid end_grid current d s = Inr s'"
  shows "s' = s \<or> (search_measure pf s', search_measure pf s) \<in> less_than <*lex*> less_than"
proof -
  let ?nb = "(fst current + fst d, snd current + snd d)"
  show ?thesis
  proof (cases "\<not> is_valid_position pf ?nb \<or> grid_lookup grid ?nb")
    case True
    with assms show ?thesis by (auto simp: visit_def Let_def)
  next
    case False
    then have nb: "?nb \<in> cells pf" using valid_in_cells by blast
    from assms False obtain gc where gc: "g_score s current = Some gc"
      by (auto simp: visit_def Let_def split: option.splits)
    show ?thesis
    proof (cases "g_score s ?nb")
      case None
      with assms False gc have "g_score s' = (g_score s)(?nb \<mapsto> gc + step_cost d)"
        by (auto simp: visit_def Let_def split: if_splits)
      from first_score_decreases [OF nb None this] show ?thesis
        by (simp add: search_measure_def)
    next
      case (Some g_old)
      show ?thesis
      proof (cases "gc + step_cost d < g_old")
        case True
        with assms False gc Some have "g_score s' = (g_score s)(?nb \<mapsto> gc + step_cost d)"
          by (auto simp: visit_def Let_def split: if_splits)
        from better_score_decreases [OF nb Some True this] show ?thesis
          by (simp add: search_measure_def)
      next
        case nb_worse: False
        with assms False gc Some show ?thesis
          by (auto simp: visit_def Let_def)
      qed
    qed
  qed
qed

lemma lex2_trans:
  "(a, b) \<in> less_than <*lex*> less_than \<Longrightarrow> (b, c) \<in> less_than <*lex*> less_than
   \<Longrightarrow> (a, c) \<in> less_than <*lex*> less_than"
  for a b c :: "nat \<times> nat"
  by (cases a; cases b; cases c) auto

lemma visit_all_measure:
  "visit_all pf grid end_grid current ds s = Inr s' \<Longrightarrow>
   s' = s \<or> (search_measure pf s', search_measure pf s) \<in> less_than <*lex*> less_than"
proof (induction ds arbitrary: s)
  case Nil
  then show ?case by simp
next
  case (Cons d ds)
  then obtain s1 where v: "visit pf grid end_grid current d s = Inr s1"
    and r: "visit_all pf grid end_grid current ds s1 = Inr s'"
    by (auto split: sum.splits)
  from visit_measure [OF v] Cons.IH [OF r] show ?case
    using lex2_trans by blast
qed

lemma least_entry_mem: "least_entry e es \<in> set (e # es)"
proof -
  have "\<And>m. fold (\<lambda>a m. if entry_less a m then a else m) es m \<in> set (m # es)"
  proof (induction es)
    case Nil then show ?case by simp
  next
    case (Cons a es)
    from Cons [of "if entry_less a m then a else m"] show ?case by auto
  qed
  then show ?thesis by (simp add: least_entry_def)
qed

lemma heappop_mem: "es \<noteq> [] \<Longrightarrow> fst (heappop es) \<in> set es"
  using least_entry_mem [of "hd es" "tl es"] by (cases es) (simp_all add: heappop_def Let_def)

lemma heappop_length: "es \<noteq> [] \<Longrightarrow> length (snd (heappop es)) < length es"
proof -
  assume ne: "es \<noteq> []"
  have "snd (heappop es) = remove1 (fst (heappop es)) es"
    by (simp add: heappop_def Let_def)
  moreover have "0 < length es" using ne by simp
  ultimately show ?thesis
    using heappop_mem [OF ne] by (simp add: length_remove1)
qed

lemma astar_step_measure:
  assumes "astar_step pf grid end_grid s = Inr s'"
  shows "((unscored pf s', score_sum pf s', length (open_set s')),
          (unscored pf s, score_sum pf s, length (open_set s)))
         \<in> less_than <*lex*> less_than <*lex*> less_than"
proof -
  from assms have ne: "open_set s \<noteq> []"
    by (auto simp: astar_step_def split: if_splits)
  let ?cur = "snd (fst (heappop (open_set s)))"
  let ?s1 = "s\<lparr>open_set := snd (heappop (open_set s)),
                open_set_hash := open_set_hash s - {?cur}\<rparr>"
  from assms ne have v: "visit_all pf grid end_grid ?cur directions ?s1 = Inr s'"
    by (auto simp: astar_step_def Let_def split: if_splits sum.splits)
  have len: "length (open_set ?s1) < length (open_set s)"
    using heappop_length [OF ne] by simp
  have same: "unscored pf ?s1 = unscored pf s" "score_sum pf ?s1 = score_sum pf s"
    by (simp_all add: unscored_def score_sum_def)
  from visit_all_measure [OF v] show ?thesis
  proof
    assume "s' = ?s1"
    with len same show ?thesis by simp
  next
    assume "(search_measure pf s', search_measure pf ?s1) \<in> less_than <*lex*> less_than"
    with same show ?thesis by (auto simp: search_measure_def)
  qed
qed

text \<open>The \<^verbatim>\<open>while open_set\<close> loop.\<close>

function astar_loop :: "pathfinder \<Rightarrow> bool list list \<Rightarrow> cell \<Rightarrow> search \<Rightarrow> search_result" where
  "astar_loop pf grid end_grid s =
     (case astar_step pf grid end_grid s of
        Inl r \<Rightarrow> r
      | Inr s1 \<Rightarrow> astar_loop pf grid end_grid s1)"
  by pat_completeness (simp only: prod.inject)
termination astar_loop
proof (relation "inv_image (less_than <*lex*> less_than <*lex*> less_than)
         (\<lambda>(pf, grid, end_grid, s). (unscored pf s, score_sum pf s, length (open_set s)))")
  show "wf (inv_image (less_than <*lex*> less_than <*lex*> less_than)
         (\<lambda>(pf, grid, end_grid, s). (unscored pf s, score_sum pf s, length (open_set s))))"
    by (intro wf_inv_image wf_lex_prod wf_less_than)
next
  fix pf grid end_grid s s1
  assume "astar_step pf grid end_grid s = Inr s1"
  from astar_step_measure [OF this]
  show "((pf, grid, end_grid, s1), pf, grid, end_grid, s)
       \<in> inv_image (less_than <*lex*> less_than <*lex*> less_than)
           (\<lambda>(pf, grid, end_grid, s). (unscored pf s, score_sum pf s, length (open_set s)))"
    by (simp only: in_inv_image prod.case)
qed

text \<open>The defining equation unfolds without end as a rewrite rule; it is used on
  demand.\<close>

declare astar_loop.simps [simp del]

subsection \<open>Path reconstruction and \<^verbatim>\<open>find_path\<close>\<close>

text \<open>
  \<^verbatim>\<open>_reconstruct_path\<close> walks the predecessor links while the current cell has one.  The
  walk does not end on a cyclic map, so the loop is a partial function: \<open>None\<close> means that
  it does not return.
\<close>

partial_function (option) reconstruct_loop :: "(cell \<rightharpoonup> cell) \<Rightarrow> cell \<Rightarrow> cell list
    \<Rightarrow> cell list option" where
  "reconstruct_loop cf current total_path =
     (case cf current of
        None \<Rightarrow> Some total_path
      | Some prev \<Rightarrow> reconstruct_loop cf prev (total_path @ [prev]))"

definition reconstruct_path :: "(cell \<rightharpoonup> cell) \<Rightarrow> cell \<Rightarrow> cell list option" where
  "reconstruct_path cf current = map_option rev (reconstruct_loop cf current [current])"

definition to_grid :: "pathfinder \<Rightarrow> point \<Rightarrow> cell" where
  "to_grid pf p =
     (py_int (fst p / of_int (grid_size pf)), py_int (snd p / of_int (grid_size pf)))"

definition cell_center :: "pathfinder \<Rightarrow> cell \<Rightarrow> int \<times> int" where
  "cell_center pf c =
     (fst c * grid_size pf + grid_size pf div 2, snd c * grid_size pf + grid_size pf div 2)"

definition initial_search :: "cell \<Rightarrow> cell \<Rightarrow> search" where
  "initial_search start_grid end_grid =
     \<lparr>open_set = [(0, start_grid)], came_from = Map.empty,
      g_score = [start_grid \<mapsto> 0],
      f_score = [start_grid \<mapsto> heuristic start_grid end_grid],
      open_set_hash = {start_grid}\<rparr>"

text \<open>
  \<^verbatim>\<open>find_path\<close>.  The outer \<open>option\<close> is \<open>None\<close> when the call does not return; inside,
  \<open>Inl\<close> is an exception and \<open>Inr\<close> the returned list of waypoints.  The division by the
  grid size raises \<^verbatim>\<open>ZeroDivisionError\<close> when it is zero.
\<close>

definition find_path :: "pathfinder \<Rightarrow> point \<Rightarrow> point \<Rightarrow> rect list
    \<Rightarrow> (py_error + (int \<times> int) list) option" where
  "find_path pf start_pos end_pos obstacles =
     (if grid_size pf = 0 then Some (Inl ZeroDivisionError)
      else (let start_grid = to_grid pf start_pos;
                end_grid = to_grid pf end_pos
            in if \<not> is_valid_position pf start_grid \<or> \<not> is_valid_position pf end_grid
               then Some (Inr [])
               else (let obstacle_grid = create_obstacle_grid pf obstacles
                     in if grid_lookup obstacle_grid start_grid
                           \<or> grid_lookup obstacle_grid end_grid
                        then Some (Inr [])
                        else (case astar_loop pf obstacle_grid end_grid
                                     (initial_search start_grid end_grid) of
                                Exhausted \<Rightarrow> Some (Inr [])
                              | Raised e \<Rightarrow> Some (Inl e)
                              | Found cf current \<Rightarrow>
                                  (case reconstruct_path cf current of
                                     None \<Rightarrow> None
                                   | Some cell_path \<Rightarrow>
                                       Some (Inr (map (cell_center pf) cell_path)))))))"

subsection \<open>Grid walks and their cost\<close>

text \<open>A cell is free when it lies in the grid and is not marked in the obstacle grid.\<close>

definition free :: "pathfinder \<Rightarrow> bool list list \<Rightarrow> cell \<Rightarrow> bool" where
  "free pf grid c \<longleftrightarrow> is_valid_position pf c \<and> \<not> grid_lookup grid c"

text \<open>Two cells are neighbours when they differ by one of the eight directions.\<close>

definition neighbours :: "cell \<Rightarrow> cell \<Rightarrow> bool" where
  "neighbours a b \<longleftrightarrow> (fst b - fst a, snd b - snd a) \<in> set directions"

text \<open>A walk: a non-empty list of free cells, each the neighbour of the one before.\<close>

fun walk :: "pathfinder \<Rightarrow> bool list list \<Rightarrow> cell list \<Rightarrow> bool" where
  "walk pf grid [] = False"
| "walk pf grid [c] = free pf grid c"
| "walk pf grid (a # b # cs) = (free pf grid a \<and> neighbours a b \<and> walk pf grid (b # cs))"

fun walk_cost :: "cell list \<Rightarrow> nat" where
  "walk_cost (a # b # cs) = step_cost (fst b - fst a, snd b - snd a) + walk_cost (b # cs)"
| "walk_cost cs = 0"

text \<open>The goal can be reached from the start through free neighbouring cells.\<close>

definition joined :: "pathfinder \<Rightarrow> bool list list \<Rightarrow> cell \<Rightarrow> cell \<Rightarrow> bool" where
  "joined pf grid a b \<longleftrightarrow> (\<exists>cs. walk pf grid cs \<and> hd cs = a \<and> last cs = b)"

section \<open>The planner-based simulation (parking.py)\<close>

datatype spot_kind = Parallel | Perpendicular

datatype orientation = Horizontal | Vertical

text \<open>A parking spot of \<^verbatim>\<open>parking.py\<close>: a dictionary with a rectangle, a type and an
  orientation, compared by value.\<close>

record lot_spot =
  lot_rect :: rect
  lot_type :: spot_kind
  lot_orientation :: orientation

text \<open>The status line.  Each constructor stands for one message:
  \<^item> \<open>Ready_to_start\<close>: \<^verbatim>\<open>"Ready to start"\<close>;
  \<^item> \<open>Reset_done\<close>: \<^verbatim>\<open>"Reset"\<close>;
  \<^item> \<open>No_parking_available\<close>: \<^verbatim>\<open>"No parking available after 3 attempts"\<close>;
  \<^item> \<open>Attempting n m\<close>: \<^verbatim>\<open>"Attempting parking in spot n/m"\<close>;
  \<^item> \<open>No_valid_spots\<close>: \<^verbatim>\<open>"No valid parking spots found"\<close>;
  \<^item> \<open>Successfully_parked\<close>: \<^verbatim>\<open>"Successfully parked!"\<close>, the only message that starts
    with \<^verbatim>\<open>"Successfully"\<close>;
  \<^item> \<open>Attempt_failed n\<close>: \<^verbatim>\<open>"Parking attempt n failed, trying new spot"\<close>.\<close>

datatype status_line =
    Ready_to_start | Reset_done | No_parking_available | Attempting nat nat
  | No_valid_spots | Successfully_parked | Attempt_failed nat

record parking_sim =
  ps_width :: int
  ps_height :: int
  ps_vehicle :: vehicle
  ps_obstacles :: "rect list"
  ps_parking_spots :: "lot_spot list"
  ps_pathfinder :: pathfinder
  current_attempt :: nat
  max_attempts :: nat
  status :: status_line
  active_spot :: "lot_spot option"

subsection \<open>The environment\<close>

text \<open>
  \<^verbatim>\<open>create_environment\<close> visits twelve parallel slots (two rows of six) and then eight
  perpendicular slots (two columns of four), and draws \<^verbatim>\<open>random.random()\<close> once per
  slot: below 0.7 the slot gets a parked car (an obstacle), otherwise it is a vacant spot.
  The draws are a parameter: \<open>draw k\<close> is the \<open>k\<close>-th number drawn.
\<close>

definition parallel_slots :: "int \<Rightarrow> (int \<times> int) list" where
  "parallel_slots h =
     concat (map (\<lambda>y_pos. map (\<lambda>i. (300 + i * (100 + 20), y_pos)) [0..5]) [150, h - 200])"

definition perpendicular_slots :: "int \<Rightarrow> (int \<times> int) list" where
  "perpendicular_slots w =
     concat (map (\<lambda>x_pos. map (\<lambda>i. (x_pos, 250 + i * (90 + 20))) [0..3]) [300, w - 200])"

definition create_environment :: "(nat \<Rightarrow> real) \<Rightarrow> int \<Rightarrow> int \<Rightarrow> rect list \<times> lot_spot list" where
  "create_environment draw w h =
     (let par = zip (parallel_slots h) [0..<12];
          perp = zip (perpendicular_slots w) [12..<20];
          occupied = (\<lambda>slot. draw (snd slot) < 7 / 10)
      in (map (\<lambda>((px, py), k). Rect px py (100 - 10) (50 - 10)) (filter occupied par)
          @ map (\<lambda>((px, py), k). Rect px py (60 - 10) (90 - 10)) (filter occupied perp),
          map (\<lambda>((px, py), k). \<lparr>lot_rect = Rect px py 100 50, lot_type = Parallel,
                                   lot_orientation = Horizontal\<rparr>)
            (filter (\<lambda>slot. \<not> occupied slot) par)
          @ map (\<lambda>((px, py), k). \<lparr>lot_rect = Rect px py 60 90, lot_type = Perpendicular,
                                     lot_orientation = Vertical\<rparr>)
              (filter (\<lambda>slot. \<not> occupied slot) perp)))"

subsection \<open>Selecting and planning\<close>

text \<open>The loop that finds the nearest spot: the state is the best spot so far with its
  distance (\<open>None\<close> while \<^verbatim>\<open>min_distance\<close> is still infinite).\<close>

definition nearer :: "point \<Rightarrow> lot_spot \<Rightarrow> (lot_spot \<times> real) option \<Rightarrow> (lot_spot \<times> real) option" where
  "nearer vehicle_pos sp best =
     (let spot_center = (of_int (centerx (lot_rect sp)), of_int (centery (lot_rect sp)));
          dist = distance vehicle_pos spot_center
      in case best of
           None \<Rightarrow> Some (sp, dist)
         | Some (nearest_spot, min_distance) \<Rightarrow>
             if dist < min_distance then Some (sp, dist) else best)"

definition nearest_spot :: "parking_sim \<Rightarrow> lot_spot option" where
  "nearest_spot sim =
     map_option fst
       (fold (nearer (veh_x (ps_vehicle sim), veh_y (ps_vehicle sim))) (ps_parking_spots sim) None)"

definition calculate_entry_point :: "lot_spot \<Rightarrow> int \<times> int" where
  "calculate_entry_point sp =
     (let r = lot_rect sp
      in case (lot_type sp, lot_orientation sp) of
           (Parallel, Horizontal) \<Rightarrow> (rect_left r - 50, centery r)
         | (Parallel, Vertical) \<Rightarrow> (centerx r, rect_top r - 50)
         | (Perpendicular, Horizontal) \<Rightarrow> (centerx r, rect_top r - 70)
         | (Perpendicular, Vertical) \<Rightarrow> (rect_left r - 70, centery r))"

definition add_parking_maneuver :: "int \<times> int \<Rightarrow> lot_spot \<Rightarrow> (int \<times> int) list" where
  "add_parking_maneuver entry_point sp =
     (let r = lot_rect sp
      in case (lot_type sp, lot_orientation sp) of
           (Parallel, Horizontal) \<Rightarrow>
             [entry_point, (rect_left r + 30, centery r), (centerx r, centery r)]
         | (Parallel, Vertical) \<Rightarrow>
             [entry_point, (centerx r, rect_top r + 30), (centerx r, centery r)]
         | (Perpendicular, Horizontal) \<Rightarrow>
             [entry_point, (centerx r, rect_top r + 30), (centerx r, centery r)]
         | (Perpendicular, Vertical) \<Rightarrow>
             [entry_point, (rect_left r + 30, centery r), (centerx r, centery r)])"

text \<open>The obstacles handed to the planner: the parked cars, then the rectangle of every
  spot other than the selected one.\<close>

definition planning_obstacles :: "parking_sim \<Rightarrow> lot_spot \<Rightarrow> rect list" where
  "planning_obstacles sim sp =
     ps_obstacles sim @ map lot_rect (filter (\<lambda>other. other \<noteq> sp) (ps_parking_spots sim))"

definition plan_route :: "parking_sim \<Rightarrow> lot_spot \<Rightarrow> (py_error + (int \<times> int) list) option" where
  "plan_route sim sp =
     find_path (ps_pathfinder sim) (veh_x (ps_vehicle sim), veh_y (ps_vehicle sim))
       (case calculate_entry_point sp of (ex, ey) \<Rightarrow> (of_int ex, of_int ey))
       (planning_obstacles sim sp)"

text \<open>
  \<^verbatim>\<open>find_parking_spot\<close> returns its boolean together with the new simulation state.  As
  for \<^verbatim>\<open>find_path\<close>, the outer \<open>None\<close> means that the call does not return and \<open>Inl\<close>
  is an exception raised by the planner.
\<close>

definition find_parking_spot :: "parking_sim \<Rightarrow> (py_error + bool \<times> parking_sim) option" where
  "find_parking_spot sim =
     (if current_attempt sim \<ge> max_attempts sim
      then Some (Inr (False, sim\<lparr>status := No_parking_available\<rparr>))
      else (case nearest_spot sim of
              None \<Rightarrow> Some (Inr (False, sim\<lparr>status := No_valid_spots\<rparr>))
            | Some sp \<Rightarrow>
                (let sim1 = sim\<lparr>active_spot := Some sp,
                               current_attempt := current_attempt sim + 1\<rparr>
                 in case plan_route sim1 sp of
                      None \<Rightarrow> None
                    | Some (Inl e) \<Rightarrow> Some (Inl e)
                    | Some (Inr route) \<Rightarrow>
                        if route \<noteq> []
                        then (let full_path = add_parking_maneuver (last route) sp;
                                  v = (set_path (ps_vehicle sim1)
                                         (map (\<lambda>(wx, wy). (of_int wx, of_int wy)) full_path))
                                      \<lparr>state := Parking\<rparr>
                              in Some (Inr (True,
                                   sim1\<lparr>ps_vehicle := v,
                                        status := Attempting (current_attempt sim1)
                                                    (max_attempts sim1)\<rparr>)))
                        else Some (Inr (False, sim1\<lparr>status := No_valid_spots\<rparr>)))))"

text \<open>The constructor: vehicle at \<open>(100, height // 2)\<close>, a fresh environment, a path
  finder with the default grid size 20, and a first call of \<^verbatim>\<open>find_parking_spot\<close>.\<close>

definition built :: "(nat \<Rightarrow> real) \<Rightarrow> int \<Rightarrow> int \<Rightarrow> parking_sim" where
  "built draw w h =
     (case create_environment draw w h of
        (obs, spots) \<Rightarrow>
          \<lparr>ps_width = w, ps_height = h,
           ps_vehicle = Vehicle_init 100 (of_int (h div 2)) 0,
           ps_obstacles = obs, ps_parking_spots = spots,
           ps_pathfinder = \<lparr>pf_width = w, pf_height = h, grid_size = 20,
                             grid_width = w div 20, grid_height = h div 20\<rparr>,
           current_attempt = 0, max_attempts = 3, status = Ready_to_start,
           active_spot = None\<rparr>)"

definition ParkingSimulation_init :: "(nat \<Rightarrow> real) \<Rightarrow> int \<Rightarrow> int
    \<Rightarrow> (py_error + parking_sim) option" where
  "ParkingSimulation_init draw w h =
     (case find_parking_spot (built draw w h) of
        None \<Rightarrow> None
      | Some (Inl e) \<Rightarrow> Some (Inl e)
      | Some (Inr (found, sim)) \<Rightarrow> Some (Inr sim))"

text \<open>One call of \<^verbatim>\<open>ParkingSimulation.update\<close>.\<close>

definition sim_update :: "parking_sim \<Rightarrow> (py_error + parking_sim) option" where
  "sim_update sim =
     (let previous_state = state (ps_vehicle sim);
          sim1 = sim\<lparr>ps_vehicle := update (ps_vehicle sim) (ps_obstacles sim)\<rparr>;
          now = state (ps_vehicle sim1);
          after_change =
            (if previous_state \<noteq> now
             then (if now = Idle \<and> previous_state = Parking
                   then Some (Inr (sim1\<lparr>status := Successfully_parked\<rparr>))
                   else if now = Idle \<and> previous_state = Returning
                   then (case find_parking_spot
                                (sim1\<lparr>status := Attempt_failed (current_attempt sim1)\<rparr>) of
                           None \<Rightarrow> None
                         | Some (Inl e) \<Rightarrow> Some (Inl e)
                         | Some (Inr (found, sim2)) \<Rightarrow> Some (Inr sim2))
                   else Some (Inr sim1))
             else Some (Inr sim1))
      in case after_change of
           None \<Rightarrow> None
         | Some (Inl e) \<Rightarrow> Some (Inl e)
         | Some (Inr sim3) \<Rightarrow>
             if state (ps_vehicle sim3) = Idle \<and> current_attempt sim3 < max_attempts sim3
                \<and> status sim3 \<noteq> Successfully_parked
             then (case find_parking_spot sim3 of
                     None \<Rightarrow> None
                   | Some (Inl e) \<Rightarrow> Some (Inl e)
                   | Some (Inr (found, sim4)) \<Rightarrow> Some (Inr sim4))
             else Some (Inr sim3))"

section \<open>Properties of the vehicle\<close>

text \<open>
  C10.  Calling \<^verbatim>\<open>update\<close> on an idle vehicle changes no field, whatever obstacles are
  passed.
\<close>

theorem update_idle_noop: "state v = Idle \<Longrightarrow> update v obstacles = v"
  by (simp add: update_def)

theorem update_idle_noop_witness:
  "state (Vehicle_init 100 400 0) = Idle
   \<and> update (Vehicle_init 100 400 0) [Rect 300 150 90 40] = Vehicle_init 100 400 0"
  using update_idle_noop [of "Vehicle_init 100 400 0" "[Rect 300 150 90 40]"]
  by (simp add: Vehicle_init_def)

subsection \<open>Collision symmetry\<close>





subsection \<open>The parking tick\<close>




subsection \<open>The heading stays normalised\<close>













end
